theory Spec2Isabelle
  imports Main "HOL-Library.Word"
begin

section \<open>JSON values and Python dictionaries\<close>

text \<open>
  The values \<open>json.loads\<close> produces: \<open>None\<close>, booleans, integers, floats (an IEEE-754
  double, kept as its 64-bit pattern), strings, lists and dictionaries. A dictionary is an
  association list in insertion order; a key is looked up with \<open>map_of\<close>. Python's
  \<open>None\<close> is \<open>JNull\<close> throughout.
\<close>

datatype json =
    JNull
  | JBool bool
  | JInt int
  | JFloat "64 word"
  | JStr string
  | JArr "json list"
  | JObj "(string \<times> json) list"

type_synonym dict = "(string \<times> json) list"

text \<open>\<open>d.get(key, default)\<close> on a dictionary.\<close>

definition dict_get :: "dict \<Rightarrow> string \<Rightarrow> json \<Rightarrow> json" where
  "dict_get d k dflt = (case map_of d k of None \<Rightarrow> dflt | Some v \<Rightarrow> v)"

definition has_key :: "dict \<Rightarrow> string \<Rightarrow> bool" where
  "has_key d k = (map_of d k \<noteq> None)"

text \<open>
  The exceptions the server meets, each with the text \<open>str(e)\<close> gives. Only
  \<open>ConnectionError\<close> is told apart by the code; every other one is an \<open>Exception\<close>.
\<close>

datatype py_exception = ConnectionError string | OtherException string

fun exception_text :: "py_exception \<Rightarrow> string" where
  "exception_text (ConnectionError m) = m"
| "exception_text (OtherException m) = m"

fun py_type_name :: "json \<Rightarrow> string" where
  "py_type_name JNull = ''NoneType''"
| "py_type_name (JBool b) = ''bool''"
| "py_type_name (JInt i) = ''int''"
| "py_type_name (JFloat f) = ''float''"
| "py_type_name (JStr s) = ''str''"
| "py_type_name (JArr xs) = ''list''"
| "py_type_name (JObj d) = ''dict''"

text \<open>
  \<open>v.get(key, default)\<close> on any value: only a dictionary has the method, every other
  value raises \<open>AttributeError\<close>.
\<close>

definition no_get_attribute :: "json \<Rightarrow> py_exception" where
  "no_get_attribute v =
     OtherException ([CHR 0x27] @ py_type_name v @ [CHR 0x27] @ '' object has no attribute ''
        @ [CHR 0x27] @ ''get'' @ [CHR 0x27])"

fun py_get :: "json \<Rightarrow> string \<Rightarrow> json \<Rightarrow> py_exception + json" where
  "py_get (JObj d) k dflt = Inr (dict_get d k dflt)"
| "py_get v k dflt = Inl (no_get_attribute v)"

section \<open>The Unity client and the environment of the MCP server\<close>

text \<open>
  The methods of \<open>UnityClient\<close> (client.py) that \<open>call_tool\<close> invokes, with their
  arguments. Each is one HTTP request to the editor: it returns the decoded JSON reply or
  raises \<open>ConnectionError\<close> (connection refused) or another exception.
\<close>

datatype client_call =
    Get_status
  | Refresh
  | Get_logs json json
  | Clear_logs
  | Get_compile_status
  | Play
  | Stop
  | Pause
  | Ping_asset json
  | Get_selection
  | Get_project_path
  | Get_current_scene

text \<open>
  What \<open>json.loads\<close> does with a line: it returns the decoded value, raises
  \<open>JSONDecodeError\<close>, or raises another exception (\<open>RecursionError\<close> on a line nested
  too deeply, \<open>ValueError\<close> on an integer with too many digits).
\<close>

datatype loads_result = Decoded json | JSONDecodeError | Raised py_exception

text \<open>
  What the server takes from outside: the editor behind the HTTP client (a function of
  the state \<open>'w\<close> of the world, which a request may change), the \<open>json\<close> library,
  Python's \<open>str\<close> on values that are not strings, the \<open>TOOLS\<close> table and the two message
  templates of \<open>call_tool\<close> (their texts are Korean; they are kept as functions of the
  exception's text).
\<close>

record 'w env =
  unity :: "'w \<Rightarrow> client_call \<Rightarrow> (py_exception + json) \<times> 'w"
  loads :: "string \<Rightarrow> loads_result"
  dumps :: "json \<Rightarrow> string"
  dumps_indent :: "json \<Rightarrow> string"
  repr :: "json \<Rightarrow> string"
  tools :: json
  connection_failed_text :: "string \<Rightarrow> string"
  error_occurred_text :: "string \<Rightarrow> string"

definition PROTOCOL_VERSION :: string where
  "PROTOCOL_VERSION = ''2024-11-05''"

definition SERVER_NAME :: string where
  "SERVER_NAME = ''unity-mcp''"

definition SERVER_VERSION :: string where
  "SERVER_VERSION = ''1.0.0''"

text \<open>The conversion an f-string applies to a value: a string is itself.\<close>

definition py_str :: "'w env \<Rightarrow> json \<Rightarrow> string" where
  "py_str E v = (case v of JStr s \<Rightarrow> s | _ \<Rightarrow> repr E v)"

section \<open>call\_tool\<close>

text \<open>
  The \<open>if\<close>/\<open>elif\<close> chain of \<open>call_tool\<close>: which client method a tool name selects,
  with the arguments read by \<open>arguments.get\<close>. Reading them raises when \<open>arguments\<close> is
  not a dictionary.
\<close>

datatype tool_request = Call client_call | Raises py_exception | Unknown_tool

definition tool_request :: "json \<Rightarrow> json \<Rightarrow> tool_request" where
  "tool_request name arguments =
    (if name = JStr ''unity_status'' then Call Get_status
     else if name = JStr ''unity_refresh'' then Call Refresh
     else if name = JStr ''unity_logs'' then
       (case py_get arguments ''count'' (JInt 50) of
          Inl e \<Rightarrow> Raises e
        | Inr count \<Rightarrow>
            (case py_get arguments ''level'' JNull of
               Inl e \<Rightarrow> Raises e
             | Inr level \<Rightarrow> Call (Get_logs count level)))
     else if name = JStr ''unity_clear_logs'' then Call Clear_logs
     else if name = JStr ''unity_compile_status'' then Call Get_compile_status
     else if name = JStr ''unity_play'' then Call Play
     else if name = JStr ''unity_stop'' then Call Stop
     else if name = JStr ''unity_pause'' then Call Pause
     else if name = JStr ''unity_ping'' then
       (case py_get arguments ''path'' (JStr '''') of
          Inl e \<Rightarrow> Raises e
        | Inr path \<Rightarrow> Call (Ping_asset path))
     else if name = JStr ''unity_selection'' then Call Get_selection
     else if name = JStr ''unity_project_path'' then Call Get_project_path
     else if name = JStr ''unity_current_scene'' then Call Get_current_scene
     else Unknown_tool)"

definition text_content :: "string \<Rightarrow> json" where
  "text_content s = JArr [JObj [(''type'', JStr ''text''), (''text'', JStr s)]]"

text \<open>The two \<open>except\<close> clauses of \<open>call_tool\<close>.\<close>

fun tool_failure :: "'w env \<Rightarrow> py_exception \<Rightarrow> json" where
  "tool_failure E (ConnectionError m) =
     JObj [(''content'', text_content (connection_failed_text E m)), (''isError'', JBool True)]"
| "tool_failure E (OtherException m) =
     JObj [(''content'', text_content (error_occurred_text E m)), (''isError'', JBool True)]"

definition call_tool :: "'w env \<Rightarrow> 'w \<Rightarrow> json \<Rightarrow> json \<Rightarrow> json \<times> 'w" where
  "call_tool E w name arguments =
    (case tool_request name arguments of
       Unknown_tool \<Rightarrow> (JObj [(''error'', JStr (''Unknown tool: '' @ py_str E name))], w)
     | Raises e \<Rightarrow> (tool_failure E e, w)
     | Call c \<Rightarrow>
         (case unity E w c of
            (Inr result, w') \<Rightarrow> (JObj [(''content'', text_content (dumps_indent E result))], w')
          | (Inl e, w') \<Rightarrow> (tool_failure E e, w')))"

section \<open>handle\_request\<close>

text \<open>
  The \<open>try\<close> block of \<open>handle_request\<close>: either the early \<open>return None\<close> of a
  notification, or the pair of \<open>result\<close> and \<open>error\<close> it leaves behind. In the
  \<open>tools/call\<close> branch \<open>params.get\<close> raises when \<open>params\<close> is not a dictionary; the
  \<open>except Exception\<close> clause turns that into error -32603.
\<close>

datatype outcome = Notification | Answer json "dict option"

definition internal_error :: "py_exception \<Rightarrow> dict" where
  "internal_error e = [(''code'', JInt (- 32603)), (''message'', JStr (exception_text e))]"

definition dispatch :: "'w env \<Rightarrow> 'w \<Rightarrow> json \<Rightarrow> json \<Rightarrow> outcome \<times> 'w" where
  "dispatch E w method params =
    (if method = JStr ''initialize'' then
       (Answer (JObj [(''protocolVersion'', JStr PROTOCOL_VERSION),
                      (''capabilities'', JObj [(''tools'', JObj [])]),
                      (''serverInfo'', JObj [(''name'', JStr SERVER_NAME),
                                             (''version'', JStr SERVER_VERSION)])]) None, w)
     else if method = JStr ''notifications/initialized'' then (Notification, w)
     else if method = JStr ''tools/list'' then (Answer (JObj [(''tools'', tools E)]) None, w)
     else if method = JStr ''tools/call'' then
       (case py_get params ''name'' (JStr '''') of
          Inl e \<Rightarrow> (Answer JNull (Some (internal_error e)), w)
        | Inr tool_name \<Rightarrow>
            (case py_get params ''arguments'' (JObj []) of
               Inl e \<Rightarrow> (Answer JNull (Some (internal_error e)), w)
             | Inr arguments \<Rightarrow>
                 (case call_tool E w tool_name arguments of
                    (result, w') \<Rightarrow> (Answer result None, w'))))
     else if method = JStr ''ping'' then (Answer (JObj []) None, w)
     else (Answer JNull
            (Some [(''code'', JInt (- 32601)),
                   (''message'', JStr (''Method not found: '' @ py_str E method))]), w))"

text \<open>
  The response dictionary. \<open>if error:\<close> tests a value that is \<open>None\<close> or a dictionary:
  it holds for a dictionary that is not empty.
\<close>

definition make_response :: "json \<Rightarrow> json \<Rightarrow> dict option \<Rightarrow> dict" where
  "make_response request_id result error =
     [(''jsonrpc'', JStr ''2.0'')]
     @ (if request_id \<noteq> JNull then [(''id'', request_id)] else [])
     @ (case error of
          None \<Rightarrow> [(''result'', result)]
        | Some e \<Rightarrow> if e \<noteq> [] then [(''error'', JObj e)] else [(''result'', result)])"

definition handle_request :: "'w env \<Rightarrow> 'w \<Rightarrow> dict \<Rightarrow> dict option \<times> 'w" where
  "handle_request E w request =
    (let method = dict_get request ''method'' (JStr '''');
         params = dict_get request ''params'' (JObj []);
         request_id = dict_get request ''id'' JNull
     in case dispatch E w method params of
          (Notification, w') \<Rightarrow> (None, w')
        | (Answer result error, w') \<Rightarrow> (Some (make_response request_id result error), w'))"

definition recognized_methods :: "json set" where
  "recognized_methods =
     {JStr ''initialize'', JStr ''notifications/initialized'', JStr ''tools/list'',
      JStr ''tools/call'', JStr ''ping''}"

section \<open>The main loop\<close>

text \<open>
  Standard input is the list of the lines still to be read; \<open>readline\<close> returns the
  next one, and the empty string once the input is exhausted.
\<close>

definition readline :: "string list \<Rightarrow> string \<times> string list" where
  "readline stdin = (case stdin of [] \<Rightarrow> ([], []) | line # rest \<Rightarrow> (line, rest))"

text \<open>
  \<open>read_message\<close> returns \<open>None\<close> at the end of the input and when \<open>json.loads\<close>
  raises \<open>JSONDecodeError\<close>, the one exception its \<open>except\<close> clause names; it returns
  the decoded value when there is one; any other exception of \<open>json.loads\<close> leaves
  \<open>read_message\<close> (\<open>Inl\<close>).
\<close>

definition read_message ::
    "'w env \<Rightarrow> string list \<Rightarrow> (py_exception + json) \<times> string list" where
  "read_message E stdin =
    (case readline stdin of
       (line, rest) \<Rightarrow>
         if line = [] then (Inr JNull, rest)
         else
           (case loads E line of
              Decoded v \<Rightarrow> (Inr v, rest)
            | JSONDecodeError \<Rightarrow> (Inr JNull, rest)
            | Raised e \<Rightarrow> (Inl e, rest)))"

definition write_message :: "'w env \<Rightarrow> dict \<Rightarrow> string" where
  "write_message E message = dumps E (JObj message) @ [CHR 0x0A]"

text \<open>
  How \<open>main\<close> ends: its loop breaks and it returns, or an exception leaves it: the one
  that left \<open>read_message\<close>, or the \<open>AttributeError\<close> of \<open>request.get\<close>, outside every
  \<open>try\<close>, when \<open>handle_request\<close> is handed a decoded value that is not a dictionary.
  A run records the lines written to standard output, the input left unread
  and the state of the world; the banner \<open>main\<close> writes to standard error first is left
  out.
\<close>

datatype ending = Returned | Uncaught py_exception

record 'w run =
  ending :: ending
  sent :: "string list"
  unread :: "string list"
  world :: 'w

function main_loop :: "'w env \<Rightarrow> 'w \<Rightarrow> string list \<Rightarrow> string list \<Rightarrow> 'w run" where
  "main_loop E w stdin out =
    (case read_message E stdin of
       (Inl e, rest) \<Rightarrow> \<lparr>ending = Uncaught e, sent = out, unread = rest, world = w\<rparr>
     | (Inr request, rest) \<Rightarrow>
         if request = JNull then \<lparr>ending = Returned, sent = out, unread = rest, world = w\<rparr>
         else
           (case request of
              JObj d \<Rightarrow>
                (case handle_request E w d of
                   (None, w') \<Rightarrow> main_loop E w' rest out
                 | (Some response, w') \<Rightarrow> main_loop E w' rest (out @ [write_message E response]))
            | _ \<Rightarrow> \<lparr>ending = Uncaught (no_get_attribute request), sent = out,
                    unread = rest, world = w\<rparr>))"
  by pat_completeness auto
termination
  by (relation "measure (\<lambda>(E, w, stdin, out). length stdin)")
     (auto simp: read_message_def readline_def
           split: list.splits if_splits loads_result.splits)

definition main :: "'w env \<Rightarrow> 'w \<Rightarrow> string list \<Rightarrow> 'w run" where
  "main E w stdin = main_loop E w stdin []"

declare main_loop.simps [simp del]

text \<open>
  An environment to run the server in: the editor answers every call with
  \<open>{"success": true}\<close>; \<open>loads\<close> raises \<open>RecursionError\<close> on a line of more than 1000
  characters (the one such line of the runs below is 1200 opening brackets), decodes the
  line \<open>{}\<close>, and raises \<open>JSONDecodeError\<close> on every other line (none of those in the
  runs below is JSON).
\<close>

definition demo_env :: "unit env" where
  "demo_env =
     \<lparr>unity = (\<lambda>w c. (Inr (JObj [(''success'', JBool True)]), w)),
      loads = (\<lambda>s. if 1000 < length s then
                       Raised (OtherException ''maximum recursion depth exceeded'')
                     else if s = ''{}'' @ [CHR 0x0A] then Decoded (JObj [])
                     else JSONDecodeError),
      dumps = (\<lambda>v. ''<json>''),
      dumps_indent = (\<lambda>v. ''<json>''),
      repr = (\<lambda>v. ''<repr>''),
      tools = JArr [],
      connection_failed_text = (\<lambda>m. m),
      error_occurred_text = (\<lambda>m. m)\<rparr>"

section \<open>The command line: normalize\<close>

text \<open>
  The parameters \<open>click\<close> hands to \<open>normalize\<close> (cli.py). An option given on the command
  line is a \<open>normalize_option\<close>; a parameter whose option is not given has the default its
  decorator declares: \<open>False\<close> for an \<open>is_flag\<close> option, 6 for \<open>--precision\<close>,
  \<open>yaml\<close> for \<open>--format\<close>, \<open>None\<close> for \<open>--output\<close> (the parameter \<open>output\<close>,
  here \<open>output_file\<close>).
\<close>

datatype output_format = Yaml | Json

record normalize_params =
  input_file :: string
  output_file :: "string option"
  stdout :: bool
  no_sort_documents :: bool
  no_sort_modifications :: bool
  no_normalize_floats :: bool
  hex_floats :: bool
  no_normalize_quaternions :: bool
  precision :: int
  output_format :: output_format

datatype normalize_option =
    Opt_output string
  | Opt_stdout
  | Opt_no_sort_documents
  | Opt_no_sort_modifications
  | Opt_no_normalize_floats
  | Opt_hex_floats
  | Opt_no_normalize_quaternions
  | Opt_precision int
  | Opt_format output_format

definition normalize_defaults :: "string \<Rightarrow> normalize_params" where
  "normalize_defaults file =
     \<lparr>input_file = file, output_file = None, stdout = False, no_sort_documents = False,
      no_sort_modifications = False, no_normalize_floats = False, hex_floats = False,
      no_normalize_quaternions = False, precision = 6, output_format = Yaml\<rparr>"

fun set_option :: "normalize_option \<Rightarrow> normalize_params \<Rightarrow> normalize_params" where
  "set_option (Opt_output path) p = p\<lparr>output_file := Some path\<rparr>"
| "set_option Opt_stdout p = p\<lparr>stdout := True\<rparr>"
| "set_option Opt_no_sort_documents p = p\<lparr>no_sort_documents := True\<rparr>"
| "set_option Opt_no_sort_modifications p = p\<lparr>no_sort_modifications := True\<rparr>"
| "set_option Opt_no_normalize_floats p = p\<lparr>no_normalize_floats := True\<rparr>"
| "set_option Opt_hex_floats p = p\<lparr>hex_floats := True\<rparr>"
| "set_option Opt_no_normalize_quaternions p = p\<lparr>no_normalize_quaternions := True\<rparr>"
| "set_option (Opt_precision n) p = p\<lparr>precision := n\<rparr>"
| "set_option (Opt_format f) p = p\<lparr>output_format := f\<rparr>"

definition normalize_params_of :: "string \<Rightarrow> normalize_option list \<Rightarrow> normalize_params" where
  "normalize_params_of file opts = fold set_option opts (normalize_defaults file)"

fun is_precision :: "normalize_option \<Rightarrow> bool" where
  "is_precision (Opt_precision n) = True"
| "is_precision opt = False"

text \<open>The keyword arguments of the \<open>UnityPrefabNormalizer\<close> constructor call.\<close>

record normalizer_settings =
  sort_documents :: bool
  sort_modifications :: bool
  normalize_floats :: bool
  use_hex_floats :: bool
  normalize_quaternions :: bool
  float_precision :: int

definition make_normalizer :: "normalize_params \<Rightarrow> normalizer_settings" where
  "make_normalizer p =
     \<lparr>sort_documents = \<not> no_sort_documents p,
      sort_modifications = \<not> no_sort_modifications p,
      normalize_floats = \<not> no_normalize_floats p,
      use_hex_floats = hex_floats p,
      normalize_quaternions = \<not> no_normalize_quaternions p,
      float_precision = precision p\<rparr>"

text \<open>
  The body of \<open>normalize\<close>: the text it prints and writes, and the exit code when it
  calls \<open>sys.exit\<close>. \<open>normalize_file\<close> (normalizer.py) is a parameter: it returns the
  canonical text or raises, with the exception's text.
\<close>

datatype cli_action =
    Echo string
  | Echo_err string
  | Write_text string string
  | Exit int

definition normalize ::
    "(normalizer_settings \<Rightarrow> string \<Rightarrow> string + string) \<Rightarrow> normalize_params \<Rightarrow> cli_action list" where
  "normalize normalize_file p =
    (case normalize_file (make_normalizer p) (input_file p) of
       Inl e \<Rightarrow>
         [Echo_err (''Error: Failed to normalize '' @ input_file p @ '': '' @ e @ [CHR 0x0A]),
          Exit 1]
     | Inr content \<Rightarrow>
         if output_format p = Json then
           [Echo_err (''Error: JSON format not yet implemented'' @ [CHR 0x0A]), Exit 1]
         else if stdout p then [Echo content]
         else
           (case output_file p of
              Some path \<Rightarrow>
                [Write_text path content,
                 Echo (''Normalized: '' @ input_file p @ '' -> '' @ path @ [CHR 0x0A])]
            | None \<Rightarrow>
                [Write_text (input_file p) content,
                 Echo (''Normalized: '' @ input_file p @ [CHR 0x0A])]))"

section \<open>The validator\<close>

text \<open>
  Modelled from the spec: validator.py (\<open>PrefabValidator\<close> and its result) is missing from
  the sources; cli.py only constructs \<open>PrefabValidator(strict=strict)\<close> and reads
  \<open>is_valid\<close>, \<open>errors\<close> and \<open>issues\<close> of what \<open>validate_file\<close> returns, and of an
  issue its \<open>severity\<close>, \<open>message\<close>, \<open>file_id\<close>, \<open>property_path\<close> and \<open>suggestion\<close>.
  Section 4.3 of the spec: \<open>validate(Document) -> {issues: ordered list of Issue,
  is_valid}\<close>, an Issue is \<open>{severity \<in> {error, warning, info}, message, optional fileID,
  optional property path, optional suggestion}\<close>, and \<open>is_valid\<close> = no error-severity
  issues; in strict mode, warnings also fail \<open>is_valid\<close>. The checks that find the issues
  (duplicate fileIDs, required fields, dangling references) are the \<open>checks\<close> of the
  validator, run in order on the document.
\<close>

datatype severity = Error | Warning | Info

record issue =
  severity :: severity
  message :: string
  file_id :: "int option"
  property_path :: "string option"
  suggestion :: "string option"

record validation_result =
  issues :: "issue list"
  is_valid :: bool

record 'd validator =
  strict :: bool
  checks :: "('d \<Rightarrow> issue list) list"

definition errors :: "validation_result \<Rightarrow> issue list" where
  "errors r = filter (\<lambda>i. severity i = Error) (issues r)"

definition warnings :: "validation_result \<Rightarrow> issue list" where
  "warnings r = filter (\<lambda>i. severity i = Warning) (issues r)"

text \<open>
  Modelled from the spec: \<open>validate\<close> of validator.py, which is missing. The result
  holds the issues the checks find, in order; it is valid when none of them is an error
  and, for a strict validator, none is a warning.
\<close>

definition validate :: "'d validator \<Rightarrow> 'd \<Rightarrow> validation_result" where
  "validate v doc =
    (let found = concat (map (\<lambda>check. check doc) (checks v));
         has_errors = list_ex (\<lambda>i. severity i = Error) found;
         has_warnings = list_ex (\<lambda>i. severity i = Warning) found
     in \<lparr>issues = found,
         is_valid = (\<not> has_errors \<and> \<not> (strict v \<and> has_warnings))\<rparr>)"

text \<open>
  The loop of the \<open>validate\<close> command (cli.py): the exit code is 1 when the result of some
  file is not valid. \<open>validate_file\<close>, which reads and parses the file before it
  validates, is a parameter; what the command prints is left out.
\<close>

definition validate_exit_code ::
    "(bool \<Rightarrow> string \<Rightarrow> validation_result) \<Rightarrow> bool \<Rightarrow> string list \<Rightarrow> int" where
  "validate_exit_code validate_file strict_flag files =
    (let any_invalid =
           fold (\<lambda>file invalid. if \<not> is_valid (validate_file strict_flag file) then True else invalid)
             files False
     in if any_invalid then 1 else 0)"

text \<open>A check that reports one warning on every document, to run the validator on.\<close>

definition demo_warning :: issue where
  "demo_warning =
     \<lparr>severity = Warning, message = ''dangling reference'', file_id = Some 9999,
      property_path = None, suggestion = None\<rparr>"

section \<open>Hex floats\<close>

text \<open>
  Modelled from the spec: normalizer.py, which holds the hex-float encoder and decoder, is
  missing from the sources; cli.py only passes \<open>use_hex_floats\<close> to the constructor.
  Sections 4.2 and 6 of the spec: in hex-float mode a float is written as a lossless
  encoding of the exact IEEE-754 bit pattern, with a reserved textual prefix distinct from
  the decimal form, and decoding inverts to the exact original 32- or 64-bit pattern.
  A float is its bit pattern here (so negative zero, the infinities and every NaN are
  values like any other); the encoding is the prefix, a parameter, followed by the pattern
  in hexadecimal, most significant digit first, 8 digits for 32 bits and 16 for 64.
\<close>

datatype float_bits = Float32 "32 word" | Float64 "64 word"

definition hex_digit :: "nat \<Rightarrow> char" where
  "hex_digit d = ''0123456789abcdef'' ! d"

definition hex_value :: "char \<Rightarrow> nat option" where
  "hex_value c =
     (if c \<in> set ''0123456789abcdef''
      then Some (length (takeWhile (\<lambda>x. x \<noteq> c) ''0123456789abcdef''))
      else None)"

fun to_hex :: "nat \<Rightarrow> nat \<Rightarrow> string" where
  "to_hex 0 v = []"
| "to_hex (Suc n) v = to_hex n (v div 16) @ [hex_digit (v mod 16)]"

fun from_hex :: "nat \<Rightarrow> string \<Rightarrow> nat option" where
  "from_hex acc [] = Some acc"
| "from_hex acc (c # cs) =
     (case hex_value c of None \<Rightarrow> None | Some d \<Rightarrow> from_hex (16 * acc + d) cs)"

text \<open>
  Modelled from the spec: the hex-float encoder of normalizer.py, which is missing. The
  reserved prefix, then the bit pattern in hexadecimal at its full width.
\<close>

fun encode_hex_float :: "string \<Rightarrow> float_bits \<Rightarrow> string" where
  "encode_hex_float pfx (Float32 w) = pfx @ to_hex 8 (unat w)"
| "encode_hex_float pfx (Float64 w) = pfx @ to_hex 16 (unat w)"

text \<open>
  Modelled from the spec: the hex-float decoder of normalizer.py, which is missing. A text
  that does not start with the prefix, or whose remainder is not 8 or 16 hexadecimal
  digits, is not a hex float (\<open>None\<close>).
\<close>

definition decode_hex_float :: "string \<Rightarrow> string \<Rightarrow> float_bits option" where
  "decode_hex_float pfx s =
    (if take (length pfx) s = pfx then
       (let digits = drop (length pfx) s in
        case from_hex 0 digits of
          None \<Rightarrow> None
        | Some v \<Rightarrow>
            if length digits = 8 then Some (Float32 (of_nat v))
            else if length digits = 16 then Some (Float64 (of_nat v))
            else None)
     else None)"

section \<open>Properties of the MCP server\<close>

text \<open>
  C9. For every request dictionary, \<open>handle_request\<close> returns \<open>None\<close> exactly when the
  method is \<open>notifications/initialized\<close>. In every other case it returns a dictionary
  whose \<open>jsonrpc\<close> is \<open>"2.0"\<close>, that has exactly one of the keys \<open>result\<close> and
  \<open>error\<close>, that has the key \<open>id\<close> iff the request's id is not \<open>None\<close>, and whose
  error has code -32601 whenever the method is not one of the recognized methods. This
  holds for every editor, every state of the world and every \<open>json\<close> library.
\<close>

theorem handle_request_response:
  "(fst (handle_request E w request) = None
      \<longleftrightarrow> dict_get request ''method'' (JStr '''') = JStr ''notifications/initialized'')
   \<and> (dict_get request ''method'' (JStr '''') \<noteq> JStr ''notifications/initialized'' \<longrightarrow>
        (\<exists>response. fst (handle_request E w request) = Some response
           \<and> map_of response ''jsonrpc'' = Some (JStr ''2.0'')
           \<and> (has_key response ''result'' \<noteq> has_key response ''error'')
           \<and> (has_key response ''id'' \<longleftrightarrow> dict_get request ''id'' JNull \<noteq> JNull)
           \<and> (dict_get request ''method'' (JStr '''') \<notin> recognized_methods \<longrightarrow>
                (\<exists>e. map_of response ''error'' = Some (JObj e)
                   \<and> map_of e ''code'' = Some (JInt (- 32601))))))"
  by (auto simp: handle_request_def dispatch_def make_response_def has_key_def
        recognized_methods_def internal_error_def Let_def
      split: sum.splits prod.splits)

theorem handle_request_response_witness:
  "dict_get [(''jsonrpc'', JStr ''2.0''), (''id'', JInt 7), (''method'', JStr ''resources/list'')]
      ''method'' (JStr '''') \<noteq> JStr ''notifications/initialized''
   \<and> dict_get [(''jsonrpc'', JStr ''2.0''), (''id'', JInt 7), (''method'', JStr ''resources/list'')]
      ''method'' (JStr '''') \<notin> recognized_methods
   \<and> fst (handle_request demo_env ()
        [(''jsonrpc'', JStr ''2.0''), (''id'', JInt 7), (''method'', JStr ''resources/list'')])
      = Some [(''jsonrpc'', JStr ''2.0''), (''id'', JInt 7),
              (''error'', JObj [(''code'', JInt (- 32601)),
                               (''message'', JStr ''Method not found: resources/list'')])]
   \<and> fst (handle_request demo_env ()
        [(''jsonrpc'', JStr ''2.0''), (''method'', JStr ''notifications/initialized'')]) = None"
  using handle_request_response [of demo_env "()"
      "[(''jsonrpc'', JStr ''2.0''), (''id'', JInt 7), (''method'', JStr ''resources/list'')]"]
    handle_request_response [of demo_env "()"
      "[(''jsonrpc'', JStr ''2.0''), (''method'', JStr ''notifications/initialized'')]"]
  by (simp add: handle_request_def dispatch_def make_response_def dict_get_def py_str_def
        recognized_methods_def)

lemma read_message_eof:
  "fst (readline stdin) = [] \<Longrightarrow> fst (read_message E stdin) = Inr JNull"
  by (cases "readline stdin") (simp add: read_message_def)

lemma read_message_decode_error:
  "loads E (fst (readline stdin)) = JSONDecodeError \<Longrightarrow> fst (read_message E stdin) = Inr JNull"
  by (cases "readline stdin") (simp add: read_message_def)

lemma main_loop_break:
  "fst (read_message E stdin) = Inr JNull \<Longrightarrow>
     main_loop E w stdin out =
       \<lparr>ending = Returned, sent = out, unread = snd (read_message E stdin), world = w\<rparr>"
  by (cases "read_message E stdin") (simp add: main_loop.simps [of E w stdin])

lemma read_message_request:
  "line \<noteq> [] \<Longrightarrow> loads E line = Decoded v \<Longrightarrow> read_message E (line # rest) = (Inr v, rest)"
  by (simp add: read_message_def readline_def)

text \<open>
  A run over requests that all decode to dictionaries, followed by one more line: the loop
  answers the requests, then does with the line what it would do with it as its first
  line, except that the answers already written stay written.
\<close>

lemma main_loop_valid_prefix:
  assumes pre: "\<forall>line\<in>set pre. line \<noteq> [] \<and> (\<exists>d. loads E line = Decoded (JObj d))"
  shows "main_loop E w (pre @ stdin) out =
           main_loop E (world (main_loop E w pre out)) stdin (sent (main_loop E w pre out))
      \<and> ending (main_loop E w pre out) = Returned"
  using pre
proof (induction pre arbitrary: w out)
  case Nil
  have "read_message E [] = (Inr JNull, [])"
    by (simp add: read_message_def readline_def)
  then show ?case
    by (simp add: main_loop.simps [of E w "[]"])
next
  case (Cons line pre)
  then obtain d where line: "line \<noteq> []" "loads E line = Decoded (JObj d)"
    by auto
  have rest: "\<forall>l\<in>set pre. l \<noteq> [] \<and> (\<exists>d. loads E l = Decoded (JObj d))"
    using Cons.prems by simp
  obtain r w' where h: "handle_request E w d = (r, w')"
    by (cases "handle_request E w d")
  show ?case
  proof (cases r)
    case None
    with h line Cons.IH [OF rest, of w' out] show ?thesis
      by (simp add: main_loop.simps [of E w "line # pre @ stdin"]
            main_loop.simps [of E w "line # pre"] read_message_request)
  next
    case (Some response)
    with h line Cons.IH [OF rest, of w' "out @ [write_message E response]"] show ?thesis
      by (simp add: main_loop.simps [of E w "line # pre @ stdin"]
            main_loop.simps [of E w "line # pre"] read_message_request)
  qed
qed

lemma main_loop_decode_error:
  "loads E bad = JSONDecodeError \<Longrightarrow>
     main_loop E w (bad # post) out =
       \<lparr>ending = Returned, sent = out, unread = post, world = w\<rparr>"
  by (simp add: main_loop.simps [of E w "bad # post"] read_message_def readline_def)

lemma main_loop_raised:
  "bad \<noteq> [] \<Longrightarrow> loads E bad = Raised e \<Longrightarrow>
     main_loop E w (bad # post) out =
       \<lparr>ending = Uncaught e, sent = out, unread = post, world = w\<rparr>"
  by (simp add: main_loop.simps [of E w "bad # post"] read_message_def readline_def)

lemma main_valid_prefix_decode_error:
  assumes "loads E bad = JSONDecodeError"
    and "\<forall>line\<in>set pre. line \<noteq> [] \<and> (\<exists>d. loads E line = Decoded (JObj d))"
  shows "main E w (pre @ bad # post) = (main E w pre)\<lparr>unread := post\<rparr>
      \<and> ending (main E w pre) = Returned"
proof -
  have eof: "main_loop E w' [] out' = \<lparr>ending = Returned, sent = out', unread = [], world = w'\<rparr>"
    for w' out'
    by (simp add: main_loop.simps [of E w' "[]"] read_message_def readline_def)
  show ?thesis
    using main_loop_valid_prefix [OF assms(2), of w "bad # post" "[]"]
      main_loop_valid_prefix [OF assms(2), of w "[]" "[]"]
      main_loop_decode_error [OF assms(1)]
    by (simp add: main_def eof)
qed

lemma main_valid_prefix_raised:
  assumes "bad \<noteq> []" "loads E bad = Raised e"
    and "\<forall>line\<in>set pre. line \<noteq> [] \<and> (\<exists>d. loads E line = Decoded (JObj d))"
  shows "main E w (pre @ bad # post) = (main E w pre)\<lparr>ending := Uncaught e, unread := post\<rparr>"
proof -
  have eof: "main_loop E w' [] out' = \<lparr>ending = Returned, sent = out', unread = [], world = w'\<rparr>"
    for w' out'
    by (simp add: main_loop.simps [of E w' "[]"] read_message_def readline_def)
  show ?thesis
    using main_loop_valid_prefix [OF assms(3), of w "bad # post" "[]"]
      main_loop_valid_prefix [OF assms(3), of w "[]" "[]"]
      main_loop_raised [OF assms(1,2)]
    by (simp add: main_def eof)
qed

text \<open>
  C10. \<open>read_message\<close> returns \<open>None\<close> when \<open>readline\<close> yields the empty string and when
  \<open>json.loads\<close> raises \<open>JSONDecodeError\<close>; \<open>main\<close> leaves its loop and returns whenever
  \<open>read_message\<close> returns \<open>None\<close>. So on an input whose first line that does not decode
  comes after requests that decode to dictionaries, the server answers those requests,
  writes nothing for the bad line (its output is that of the run over the requests alone)
  and stops with the lines after it unread: it returns when \<open>json.loads\<close> raises
  \<open>JSONDecodeError\<close> on the line, and it dies of the exception when \<open>json.loads\<close> raises
  another one, which \<open>read_message\<close> does not catch. In neither case is an error response
  produced.
\<close>

theorem main_stops_on_malformed_line:
  "(fst (readline stdin) = [] \<longrightarrow> fst (read_message E stdin) = Inr JNull)
   \<and> (loads E (fst (readline stdin)) = JSONDecodeError \<longrightarrow>
        fst (read_message E stdin) = Inr JNull)
   \<and> (fst (read_message E stdin) = Inr JNull \<longrightarrow>
        main_loop E w stdin out =
          \<lparr>ending = Returned, sent = out, unread = snd (read_message E stdin), world = w\<rparr>)
   \<and> (loads E bad = JSONDecodeError
        \<and> (\<forall>line\<in>set pre. line \<noteq> [] \<and> (\<exists>d. loads E line = Decoded (JObj d))) \<longrightarrow>
        main E w (pre @ bad # post) = (main E w pre)\<lparr>unread := post\<rparr>
        \<and> ending (main E w pre) = Returned)
   \<and> (bad \<noteq> [] \<and> loads E bad = Raised e
        \<and> (\<forall>line\<in>set pre. line \<noteq> [] \<and> (\<exists>d. loads E line = Decoded (JObj d))) \<longrightarrow>
        main E w (pre @ bad # post) = (main E w pre)\<lparr>ending := Uncaught e, unread := post\<rparr>
        \<and> ending (main E w pre) = Returned)"
  using read_message_eof [of stdin E] read_message_decode_error [of E stdin]
    main_loop_break [of E stdin w out] main_valid_prefix_decode_error [of E bad pre w post]
    main_valid_prefix_raised [of bad E e pre w post]
    main_loop_valid_prefix [of pre E w "[]" "[]"]
  by (simp add: main_def)

theorem main_stops_on_malformed_line_witness:
  "fst (readline ([] :: string list)) = []
   \<and> fst (read_message demo_env []) = Inr JNull
   \<and> loads demo_env (fst (readline [''oops'' @ [CHR 0x0A], ''{}'' @ [CHR 0x0A]])) = JSONDecodeError
   \<and> fst (read_message demo_env [''oops'' @ [CHR 0x0A], ''{}'' @ [CHR 0x0A]]) = Inr JNull
   \<and> main_loop demo_env () [''oops'' @ [CHR 0x0A], ''{}'' @ [CHR 0x0A]] [] =
        \<lparr>ending = Returned, sent = [], unread = [''{}'' @ [CHR 0x0A]], world = ()\<rparr>
   \<and> loads demo_env (''{}'' @ [CHR 0x0A]) = Decoded (JObj [])
   \<and> main demo_env () [''{}'' @ [CHR 0x0A], ''oops'' @ [CHR 0x0A], ''{}'' @ [CHR 0x0A]] =
        \<lparr>ending = Returned, sent = [''<json>'' @ [CHR 0x0A]],
         unread = [''{}'' @ [CHR 0x0A]], world = ()\<rparr>
   \<and> replicate 1200 (CHR ''['') @ [CHR 0x0A] \<noteq> []
   \<and> loads demo_env (replicate 1200 (CHR ''['') @ [CHR 0x0A]) =
        Raised (OtherException ''maximum recursion depth exceeded'')
   \<and> main demo_env ()
        [''{}'' @ [CHR 0x0A], replicate 1200 (CHR ''['') @ [CHR 0x0A], ''{}'' @ [CHR 0x0A]] =
        \<lparr>ending = Uncaught (OtherException ''maximum recursion depth exceeded''),
         sent = [''<json>'' @ [CHR 0x0A]], unread = [''{}'' @ [CHR 0x0A]], world = ()\<rparr>"
  using main_stops_on_malformed_line [where stdin = "[''oops'' @ [CHR 0x0A], ''{}'' @ [CHR 0x0A]]"
      and E = demo_env and w = "()" and out = "[]" and bad = "''oops'' @ [CHR 0x0A]"
      and pre = "[''{}'' @ [CHR 0x0A]]" and post = "[''{}'' @ [CHR 0x0A]]"
      and e = "OtherException ''maximum recursion depth exceeded''"]
    main_stops_on_malformed_line [where stdin = "[]" and E = demo_env and w = "()"
      and out = "[]" and bad = "replicate 1200 (CHR ''['') @ [CHR 0x0A]"
      and pre = "[''{}'' @ [CHR 0x0A]]" and post = "[''{}'' @ [CHR 0x0A]]"
      and e = "OtherException ''maximum recursion depth exceeded''"]
  by (simp add: demo_env_def readline_def read_message_def main_def
        main_loop.simps [of _ _ "[]"] main_loop.simps [of _ _ "_ # _"]
        handle_request_def dispatch_def dict_get_def make_response_def py_str_def
        write_message_def)

section \<open>Properties of the normalize command\<close>

lemma fold_set_option_no_sort_documents:
  "no_sort_documents (fold set_option opts p)
     = (no_sort_documents p \<or> Opt_no_sort_documents \<in> set opts)"
proof (induction opts arbitrary: p)
  case Nil
  show ?case by simp
next
  case (Cons opt opts)
  then show ?case by (cases opt) auto
qed

lemma fold_set_option_no_sort_modifications:
  "no_sort_modifications (fold set_option opts p)
     = (no_sort_modifications p \<or> Opt_no_sort_modifications \<in> set opts)"
proof (induction opts arbitrary: p)
  case Nil
  show ?case by simp
next
  case (Cons opt opts)
  then show ?case by (cases opt) auto
qed

lemma fold_set_option_no_normalize_floats:
  "no_normalize_floats (fold set_option opts p)
     = (no_normalize_floats p \<or> Opt_no_normalize_floats \<in> set opts)"
proof (induction opts arbitrary: p)
  case Nil
  show ?case by simp
next
  case (Cons opt opts)
  then show ?case by (cases opt) auto
qed

lemma fold_set_option_no_normalize_quaternions:
  "no_normalize_quaternions (fold set_option opts p)
     = (no_normalize_quaternions p \<or> Opt_no_normalize_quaternions \<in> set opts)"
proof (induction opts arbitrary: p)
  case Nil
  show ?case by simp
next
  case (Cons opt opts)
  then show ?case by (cases opt) auto
qed

lemma fold_set_option_precision:
  "\<forall>opt\<in>set opts. \<not> is_precision opt \<Longrightarrow> precision (fold set_option opts p) = precision p"
proof (induction opts arbitrary: p)
  case Nil
  show ?case by simp
next
  case (Cons opt opts)
  then show ?case by (cases opt) auto
qed

text \<open>
  C8. With no option on the command line the normalizer is built with
  \<open>sort_documents\<close>, \<open>sort_modifications\<close>, \<open>normalize_floats\<close> and
  \<open>normalize_quaternions\<close> on and \<open>float_precision\<close> 6 (and hex floats off). On any
  command line each of the four is on exactly when its \<open>--no-...\<close> flag is not given,
  and the precision is 6 when \<open>--precision\<close> is not given.
\<close>

theorem normalize_options_default_on:
  "make_normalizer (normalize_params_of file []) =
     \<lparr>sort_documents = True, sort_modifications = True, normalize_floats = True,
      use_hex_floats = False, normalize_quaternions = True, float_precision = 6\<rparr>
   \<and> sort_documents (make_normalizer (normalize_params_of file opts))
       = (Opt_no_sort_documents \<notin> set opts)
   \<and> sort_modifications (make_normalizer (normalize_params_of file opts))
       = (Opt_no_sort_modifications \<notin> set opts)
   \<and> normalize_floats (make_normalizer (normalize_params_of file opts))
       = (Opt_no_normalize_floats \<notin> set opts)
   \<and> normalize_quaternions (make_normalizer (normalize_params_of file opts))
       = (Opt_no_normalize_quaternions \<notin> set opts)
   \<and> float_precision (make_normalizer
         (normalize_params_of file (filter (\<lambda>opt. \<not> is_precision opt) opts))) = 6"
  by (simp add: make_normalizer_def normalize_params_of_def fold_set_option_no_sort_documents
        fold_set_option_no_sort_modifications fold_set_option_no_normalize_floats
        fold_set_option_no_normalize_quaternions fold_set_option_precision
        normalize_defaults_def)

section \<open>Properties of the validator\<close>

lemma validate_exit_code_fold:
  "fold (\<lambda>file invalid. if \<not> is_valid (validate_file flag file) then True else invalid) files b
     = (b \<or> (\<exists>file\<in>set files. \<not> is_valid (validate_file flag file)))"
  by (induction files arbitrary: b) auto

lemma validate_exit_code_one:
  "validate_exit_code validate_file flag files = 1
     \<longleftrightarrow> (\<exists>file\<in>set files. \<not> is_valid (validate_file flag file))"
  by (simp add: validate_exit_code_def validate_exit_code_fold)

text \<open>
  C6. For every document, \<open>is_valid\<close> of the validator's result holds iff the returned
  issue list has no issue of severity error and, when the validator is strict, no issue
  of severity warning either.
\<close>

theorem is_valid_iff_no_errors:
  "is_valid (validate v doc) \<longleftrightarrow>
     (\<forall>i\<in>set (issues (validate v doc)). severity i \<noteq> Error)
     \<and> (strict v \<longrightarrow> (\<forall>i\<in>set (issues (validate v doc)). severity i \<noteq> Warning))"
  by (auto simp: validate_def Let_def list_ex_iff)

theorem is_valid_iff_no_errors_witness:
  "is_valid (validate \<lparr>strict = False, checks = [\<lambda>d. [demo_warning]]\<rparr> ())
   \<and> \<not> is_valid (validate \<lparr>strict = True, checks = [\<lambda>d. [demo_warning]]\<rparr> ())
   \<and> issues (validate \<lparr>strict = True, checks = [\<lambda>d. [demo_warning]]\<rparr> ()) = [demo_warning]
   \<and> severity demo_warning = Warning"
  using is_valid_iff_no_errors [of "\<lparr>strict = False, checks = [\<lambda>d. [demo_warning]]\<rparr>" "()"]
    is_valid_iff_no_errors [of "\<lparr>strict = True, checks = [\<lambda>d. [demo_warning]]\<rparr>" "()"]
  by (simp add: validate_def demo_warning_def)

section \<open>Properties of the hex-float encoding\<close>

lemma hex_digits_all: "list_all (\<lambda>d. hex_value (hex_digit d) = Some d) [0..<16]"
  by code_simp

lemma hex_value_digit: "d < 16 \<Longrightarrow> hex_value (hex_digit d) = Some d"
  using hex_digits_all by (simp add: list_all_iff)

lemma from_hex_append:
  "from_hex acc (xs @ ys) = (case from_hex acc xs of None \<Rightarrow> None | Some a \<Rightarrow> from_hex a ys)"
  by (induction xs arbitrary: acc) (auto split: option.splits)

text \<open>Reading back the \<open>n\<close> digits written for \<open>v\<close> gives \<open>v\<close> up to \<open>16 ^ n\<close>.\<close>

lemma from_hex_to_hex: "from_hex acc (to_hex n v) = Some (acc * 16 ^ n + v mod 16 ^ n)"
proof (induction n arbitrary: v)
  case 0
  show ?case by simp
next
  case (Suc n)
  have split: "v mod 16 ^ Suc n = (v div 16 mod 16 ^ n) * 16 + v mod 16"
    by (simp add: mod_mult2_eq)
  have "from_hex acc (to_hex (Suc n) v)
      = from_hex (acc * 16 ^ n + v div 16 mod 16 ^ n) [hex_digit (v mod 16)]"
    by (simp add: from_hex_append Suc.IH)
  also have "\<dots> = Some (16 * (acc * 16 ^ n + v div 16 mod 16 ^ n) + v mod 16)"
    by (simp add: hex_value_digit)
  also have "16 * (acc * 16 ^ n + v div 16 mod 16 ^ n) + v mod 16
      = acc * 16 ^ Suc n + v mod 16 ^ Suc n"
    unfolding split by (simp add: algebra_simps)
  finally show ?case .
qed

lemma length_to_hex: "length (to_hex n v) = n"
  by (induction n arbitrary: v) auto

lemma unat_32_hex: "unat (w :: 32 word) mod 16 ^ 8 = unat w"
proof -
  have "unat w < 2 ^ 32" using unsigned_less [of w] by simp
  then show ?thesis by simp
qed

lemma unat_64_hex: "unat (w :: 64 word) mod 16 ^ 16 = unat w"
proof -
  have "unat w < 2 ^ 64" using unsigned_less [of w] by simp
  then show ?thesis by simp
qed

text \<open>
  C4. For every 32-bit and every 64-bit float, decoding its hex-float encoding gives back
  the float with exactly the original bit pattern, whatever the reserved prefix is. The
  pattern ranges over all words, so negative zero (\<open>0x8000000000000000\<close>), the
  infinities, the NaNs, 0.1 (\<open>0x3FB999999999999A\<close>) and the largest and smallest
  magnitudes are instances.
\<close>

theorem hex_float_round_trip: "decode_hex_float pfx (encode_hex_float pfx x) = Some x"
proof (cases x)
  case (Float32 w)
  have "from_hex 0 (to_hex 8 (unat w)) = Some (unat w)"
    using from_hex_to_hex [of 0 8 "unat w"] unat_32_hex [of w] by simp
  then show ?thesis
    by (simp add: Float32 decode_hex_float_def length_to_hex del: to_hex.simps)
next
  case (Float64 w)
  have "from_hex 0 (to_hex 16 (unat w)) = Some (unat w)"
    using from_hex_to_hex [of 0 16 "unat w"] unat_64_hex [of w] by simp
  then show ?thesis
    by (simp add: Float64 decode_hex_float_def length_to_hex del: to_hex.simps)
qed

end
